theory Spec2Isabelle
  imports Main "HOL-Library.Multiset" "HOL-Library.Sublist" "HOL-Library.Word"
begin

section \<open>IDFDUT: the device-under-test driver of tiny-test-fw\<close>

text \<open>
  A shallow embedding of \<^verbatim>\<open>tools/tiny-test-fw/IDF/IDFDUT.py\<close>. Port names and the
  \<^verbatim>\<open>ESPPORT\<close> hint are text, modelled as \<^typ>\<open>string\<close>; on text the test
  \<^verbatim>\<open>type(espport) is type(u'')\<close> and the call \<^verbatim>\<open>espport.decode('utf8')\<close> of lines
  178--181 only change the representation, so \<^verbatim>\<open>port_hint\<close> is \<^verbatim>\<open>espport\<close>.
\<close>

subsection \<open>Strings and the invalid-port pattern\<close>

text \<open>Python's \<^verbatim>\<open>sub in s\<close> on strings: \<^verbatim>\<open>sub\<close> occurs as a contiguous run of \<^verbatim>\<open>s\<close>.\<close>

fun str_in :: "string \<Rightarrow> string \<Rightarrow> bool" where
  "str_in sub [] = (sub = [])"
| "str_in sub (c # cs) = (prefix sub (c # cs) \<or> str_in sub cs)"

text \<open>
  Python's \<^verbatim>\<open>s.replace(old, new)\<close>: every non-overlapping occurrence of \<^verbatim>\<open>old\<close>, found
  scanning from the left, is replaced by \<^verbatim>\<open>new\<close>. An empty \<^verbatim>\<open>old\<close> matches before
  every character and at the end.
\<close>

fun str_replace :: "string \<Rightarrow> string \<Rightarrow> string \<Rightarrow> string" where
  "str_replace old new [] = (if old = [] then new else [])"
| "str_replace old new (c # cs) =
     (if old = [] then new @ c # str_replace old new cs
      else if prefix old (c # cs) then new @ str_replace old new (drop (length old - 1) cs)
      else c # str_replace old new cs)"

text \<open>
  The regular expressions the class compiles are alternations of literal words
  (\<^verbatim>\<open>re.compile(r"AMA|Bluetooth")\<close>); \<^verbatim>\<open>pattern.search(s)\<close> finds a match of the
  pattern anywhere in \<^verbatim>\<open>s\<close>, and the code only tests whether there is one.
\<close>

datatype regex = Lit string | Alt regex regex

fun matches_at_start :: "regex \<Rightarrow> string \<Rightarrow> bool" where
  "matches_at_start (Lit w) s = prefix w s"
| "matches_at_start (Alt a b) s = (matches_at_start a s \<or> matches_at_start b s)"

fun search :: "regex \<Rightarrow> string \<Rightarrow> bool" where
  "search r [] = matches_at_start r []"
| "search r (c # cs) = (matches_at_start r (c # cs) \<or> search r cs)"

definition INVALID_PORT_PATTERN :: regex where
  "INVALID_PORT_PATTERN = Alt (Lit ''AMA'') (Lit ''Bluetooth'')"

subsection \<open>Port selection\<close>

text \<open>
  \<^verbatim>\<open>list_available_ports\<close> (lines 164--196). Its inputs come from the environment:
  \<^verbatim>\<open>sys.platform\<close>, the device names \<^verbatim>\<open>list_ports.comports()\<close> enumerates, and
  \<^verbatim>\<open>os.getenv('ESPPORT')\<close>, which is \<^verbatim>\<open>None\<close> when the variable is unset.
  \<^verbatim>\<open>not espport\<close> holds for \<^verbatim>\<open>None\<close> and for the empty string;
  \<^verbatim>\<open>ports.remove(x)\<close> deletes the first occurrence of \<^verbatim>\<open>x\<close>.
\<close>

definition list_available_ports :: "string \<Rightarrow> string list \<Rightarrow> string option \<Rightarrow> string list" where
  "list_available_ports platform ports espport =
     (case espport of
        None \<Rightarrow> filter (\<lambda>x. \<not> search INVALID_PORT_PATTERN x) ports
      | Some port_hint \<Rightarrow>
          if port_hint = [] then filter (\<lambda>x. \<not> search INVALID_PORT_PATTERN x) ports
          else if port_hint \<in> set ports then
            port_hint # remove1 port_hint ports
          else if platform = ''darwin'' \<and> str_in ''tty.'' port_hint then
            let port_hint = str_replace ''tty.'' ''cu.'' port_hint in
            if port_hint \<in> set ports then
              port_hint # remove1 port_hint ports
            else ports
          else ports)"

subsection \<open>The session, its environment and its errors\<close>

text \<open>
  The file runs under Python 2 and under Python 3 (lines 71--72 and 177--181 provide for
  both). The two differ in two places of this file: the name bound by
  \<^verbatim>\<open>except ... as error\<close> survives the handler in Python 2 and is deleted at its end
  in Python 3; and \<^verbatim>\<open>chr(0xFF) * size\<close> is a byte string in Python 2 and a text
  string, which a file opened with \<^verbatim>\<open>"wb"\<close> refuses, in Python 3.
\<close>

datatype python_version = Py2 | Py3

text \<open>An element of a command line: text or a number.\<close>

datatype arg = Str string | Num int

text \<open>
  Modelled from the spec: an entry of the partition table that
  \<^verbatim>\<open>app.process_app_info()\<close> returns, the dictionary with the keys \<^verbatim>\<open>"offset"\<close> and
  \<^verbatim>\<open>"size"\<close>, both integers.
\<close>

record partition =
  part_offset :: int
  part_size :: int

datatype error =
    KeyError string
  | CalledProcessError int "arg list" string
  | IDFToolError string
  | UnboundLocalError string
  | TypeError string

text \<open>
  What the session does to the outside, in order: it releases and takes the serial port,
  and it runs external commands with \<^verbatim>\<open>subprocess.check_output\<close>.
\<close>

datatype event = ClosePort | OpenPort | Tool "arg list"

record tmp_file =
  tmp_name :: string
  tmp_content :: "8 word list"
  tmp_closed :: bool

text \<open>
  The object (\<^verbatim>\<open>self\<close>) with the part of the world it acts on. \<^verbatim>\<open>tmp_files\<close> holds
  every file \<^verbatim>\<open>tempfile.NamedTemporaryFile\<close> has made, in order of creation, and
  \<^verbatim>\<open>files\<close> the named files written with \<^verbatim>\<open>open(..., "wb")\<close>.
\<close>

record dut =
  port :: string
  esptool :: string
  log_folder :: string
  download_config :: "arg list"
  partition_table :: "string \<rightharpoonup> partition"
  is_open :: bool
  events :: "event list"
  tmp_files :: "tmp_file list"
  files :: "string \<rightharpoonup> 8 word list"

text \<open>
  What the code asks of its surroundings: the interpreter, the exit status and the output
  of an external command, the name of the next temporary file, and \<^verbatim>\<open>os.path\<close>.
  The errors of the model are those the source raises or catches itself, those of a
  failed dictionary lookup and those of an argument of the wrong type; the operating
  system's own calls (making, writing and closing a file, taking the port) succeed.
\<close>

record env =
  python :: python_version
  run_tool :: "arg list \<Rightarrow> int \<times> string"
  mktemp :: "nat \<Rightarrow> string"
  isabs :: "string \<Rightarrow> bool"
  relpath :: "string \<Rightarrow> string \<Rightarrow> string"

text \<open>
  Modelled from the spec: \<^verbatim>\<open>close\<close> and \<^verbatim>\<open>open\<close> of \<^verbatim>\<open>DUT.SerialDUT\<close>, the base
  class, which release the held serial connection and reacquire it.
\<close>

definition close :: "dut \<Rightarrow> dut" where
  "close s = s\<lparr>is_open := False, events := events s @ [ClosePort]\<rparr>"

definition open_port :: "dut \<Rightarrow> dut" where
  "open_port s = s\<lparr>is_open := True, events := events s @ [OpenPort]\<rparr>"

text \<open>
  \<^verbatim>\<open>subprocess\<close> takes a command line of strings. An argument that is a number makes it
  raise \<^verbatim>\<open>TypeError\<close> and the command is not run; the message is the interpreter's.
\<close>

definition is_text :: "arg \<Rightarrow> bool" where
  "is_text a = (case a of Str x \<Rightarrow> True | Num n \<Rightarrow> False)"

definition not_text_error :: "python_version \<Rightarrow> error" where
  "not_text_error py =
     (case py of
        Py2 \<Rightarrow> TypeError ''execv() arg 2 must contain only strings''
      | Py3 \<Rightarrow> TypeError ''expected str, bytes or os.PathLike object, not int'')"

text \<open>
  \<^verbatim>\<open>subprocess.check_output(cmd)\<close> runs the command and returns its output, or raises
  \<^verbatim>\<open>CalledProcessError\<close> when the exit status is not zero.
\<close>

definition check_output :: "env \<Rightarrow> arg list \<Rightarrow> dut \<Rightarrow> (error + string) \<times> dut" where
  "check_output e cmd s =
     (if \<not> list_all is_text cmd then (Inl (not_text_error (python e)), s)
      else
        let s' = s\<lparr>events := events s @ [Tool cmd]\<rparr> in
        case run_tool e cmd of
          (returncode, output) \<Rightarrow>
            if returncode = 0 then (Inr output, s')
            else (Inl (CalledProcessError returncode cmd output), s'))"

text \<open>\<^verbatim>\<open>tempfile.NamedTemporaryFile()\<close>, \<^verbatim>\<open>write\<close> and \<^verbatim>\<open>close\<close>; a file is its index.\<close>

definition NamedTemporaryFile :: "env \<Rightarrow> dut \<Rightarrow> nat \<times> dut" where
  "NamedTemporaryFile e s =
     (length (tmp_files s),
      s\<lparr>tmp_files := tmp_files s @
           [\<lparr>tmp_name = mktemp e (length (tmp_files s)), tmp_content = [], tmp_closed = False\<rparr>]\<rparr>)"

definition tmp_write :: "nat \<Rightarrow> 8 word list \<Rightarrow> dut \<Rightarrow> dut" where
  "tmp_write f bytes s =
     (if f < length (tmp_files s) then
        s\<lparr>tmp_files := (tmp_files s)
             [f := (tmp_files s ! f)\<lparr>tmp_content := tmp_content (tmp_files s ! f) @ bytes\<rparr>]\<rparr>
      else s)"

definition tmp_close :: "nat \<Rightarrow> dut \<Rightarrow> dut" where
  "tmp_close f s =
     (if f < length (tmp_files s) then
        s\<lparr>tmp_files := (tmp_files s)[f := (tmp_files s ! f)\<lparr>tmp_closed := True\<rparr>]\<rparr>
      else s)"

subsection \<open>The wrapper of the tool methods\<close>

text \<open>
  \<^verbatim>\<open>_tool_method\<close> (lines 33--41): \<^verbatim>\<open>self.close()\<close>, the wrapped method, \<^verbatim>\<open>self.open()\<close>,
  one after the other. An error of the wrapped method leaves \<^verbatim>\<open>handler\<close> at once.
\<close>

definition tool_method :: "(dut \<Rightarrow> (error + 'a) \<times> dut) \<Rightarrow> dut \<Rightarrow> (error + 'a) \<times> dut" where
  "tool_method func s =
     (case func (close s) of
        (Inl err, s') \<Rightarrow> (Inl err, s')
      | (Inr ret, s') \<Rightarrow> (Inr ret, open_port s'))"

subsection \<open>Flashing\<close>

definition ERASE_NVS :: bool where
  "ERASE_NVS = True"

definition retry_baud_rates :: "string list" where
  "retry_baud_rates = [''921600'', ''115200'']"

definition flash_cmd :: "dut \<Rightarrow> string \<Rightarrow> arg list \<Rightarrow> arg list" where
  "flash_cmd s baud_rate download_config' =
     [Str ''python'', Str (esptool s), Str ''--port'', Str (port s), Str ''--baud'', Str baud_rate]
     @ download_config'"

text \<open>
  The \<^verbatim>\<open>for ... else\<close> of lines 101--110, with the local variable \<^verbatim>\<open>error\<close>
  (\<^verbatim>\<open>None\<close> when the name is unbound). A successful attempt is the \<^verbatim>\<open>break\<close>; the
  \<^verbatim>\<open>else\<close> is the exhausted list.
\<close>

fun flash_retry :: "env \<Rightarrow> arg list \<Rightarrow> string list \<Rightarrow> error option \<Rightarrow> dut \<Rightarrow> (error + unit) \<times> dut" where
  "flash_retry e dc [] err s =
     (case err of
        Some x \<Rightarrow> (Inl x, s)
      | None \<Rightarrow> (Inl (UnboundLocalError ''error''), s))"
| "flash_retry e dc (baud_rate # rest) err s =
     (case check_output e (flash_cmd s baud_rate dc) s of
        (Inr output, s') \<Rightarrow> (Inr (), s')
      | (Inl (CalledProcessError rc cmd output), s') \<Rightarrow>
          flash_retry e dc rest
            (case python e of Py2 \<Rightarrow> Some (CalledProcessError rc cmd output) | Py3 \<Rightarrow> None) s'
      | (Inl x, s') \<Rightarrow> (Inl x, s'))"

text \<open>\<^verbatim>\<open>start_app\<close> (lines 80--113) before it is wrapped.\<close>

definition start_app_body :: "env \<Rightarrow> bool \<Rightarrow> dut \<Rightarrow> (error + unit) \<times> dut" where
  "start_app_body e erase_nvs s =
     (if erase_nvs then
        case partition_table s ''nvs'' of
          None \<Rightarrow> (Inl (KeyError ''nvs''), s)
        | Some p \<Rightarrow>
            let address = part_offset p;
                size' = part_size p;
                (nvs_file, s1) = NamedTemporaryFile e s;
                s2 = tmp_write nvs_file (replicate (nat size') 0xFF) s1;
                download_config' = download_config s @ [Num address, Str (tmp_name (tmp_files s2 ! nvs_file))];
                (r, s3) = flash_retry e download_config' retry_baud_rates (Some (IDFToolError [])) s2
            in (r, tmp_close nvs_file s3)
      else
        flash_retry e (download_config s) retry_baud_rates (Some (IDFToolError [])) s)"

definition start_app :: "env \<Rightarrow> bool \<Rightarrow> dut \<Rightarrow> (error + unit) \<times> dut" where
  "start_app e erase_nvs = tool_method (start_app_body e erase_nvs)"

subsection \<open>Reset, erase and dump\<close>

definition reset_body :: "env \<Rightarrow> dut \<Rightarrow> (error + unit) \<times> dut" where
  "reset_body e s =
     (case check_output e [Str ''python'', Str (esptool s), Str ''--port'', Str (port s), Str ''run''] s of
        (Inl err, s') \<Rightarrow> (Inl err, s')
      | (Inr output, s') \<Rightarrow> (Inr (), s'))"

definition reset :: "env \<Rightarrow> dut \<Rightarrow> (error + unit) \<times> dut" where
  "reset e = tool_method (reset_body e)"

text \<open>
  \<^verbatim>\<open>erase_partition\<close> (lines 124--133) writes a file of \<^verbatim>\<open>0xFF\<close> and runs no command.
  Under Python 3 the file is opened, which empties it, and the \<^verbatim>\<open>write\<close> of a text
  string raises \<^verbatim>\<open>TypeError\<close>.
\<close>

definition erase_partition_body :: "env \<Rightarrow> string \<Rightarrow> dut \<Rightarrow> (error + unit) \<times> dut" where
  "erase_partition_body e partition' s =
     (case partition_table s partition' of
        None \<Rightarrow> (Inl (KeyError partition'), s)
      | Some p \<Rightarrow>
          (case python e of
             Py2 \<Rightarrow>
               (Inr (), s\<lparr>files := (files s)(''.erase_partition.tmp'' \<mapsto> replicate (nat (part_size p)) 0xFF)\<rparr>)
           | Py3 \<Rightarrow>
               (Inl (TypeError (''a bytes-like object is required, not 'str'' @ [CHR 0x27])),
                s\<lparr>files := (files s)(''.erase_partition.tmp'' \<mapsto> [])\<rparr>)))"

definition erase_partition :: "env \<Rightarrow> string \<Rightarrow> dut \<Rightarrow> (error + unit) \<times> dut" where
  "erase_partition e partition' = tool_method (erase_partition_body e partition')"

text \<open>
  The keyword arguments of \<^verbatim>\<open>dump_flush\<close> that the method looks at; \<^verbatim>\<open>None\<close> is a
  keyword that was not passed.
\<close>

record kwargs =
  kw_partition :: "string option"
  kw_address :: "arg option"
  kw_size :: "arg option"

definition read_flash_cmd :: "dut \<Rightarrow> arg \<Rightarrow> arg \<Rightarrow> string \<Rightarrow> arg list" where
  "read_flash_cmd s address size' output_file =
     [Str ''python'', Str (esptool s), Str ''--port'', Str (port s), Str ''--baud'', Str ''921600'',
      Str ''--before'', Str ''default_reset'', Str ''--after'', Str ''hard_reset'', Str ''read_flash'',
      address, size', Str output_file]"



text \<open>The commands run by a stretch of events.\<close>

fun tool_calls :: "event list \<Rightarrow> arg list list" where
  "tool_calls [] = []"
| "tool_calls (Tool cmd # es) = cmd # tool_calls es"
| "tool_calls (ev # es) = tool_calls es"


subsection \<open>Vocabulary of the properties\<close>

text \<open>
  The baud rates the loop gets to when the command line is all strings: those up to and
  including the first at which the command exits with status zero, or all of them when
  none does.
\<close>

definition attempted :: "env \<Rightarrow> dut \<Rightarrow> arg list \<Rightarrow> string list \<Rightarrow> string list" where
  "attempted e s dc rates =
     take (Suc (length (takeWhile (\<lambda>b. fst (run_tool e (flash_cmd s b dc)) \<noteq> 0) rates))) rates"

text \<open>The error \<^verbatim>\<open>check_output\<close> raises for a command that fails.\<close>

definition failure :: "env \<Rightarrow> arg list \<Rightarrow> error" where
  "failure e cmd = CalledProcessError (fst (run_tool e cmd)) cmd (snd (run_tool e cmd))"

text \<open>The value of the local variable \<^verbatim>\<open>download_config\<close> when the loop of \<^verbatim>\<open>start_app\<close> starts.\<close>

definition flash_config :: "env \<Rightarrow> bool \<Rightarrow> dut \<Rightarrow> arg list" where
  "flash_config e erase_nvs s =
     (case (erase_nvs, partition_table s ''nvs'') of
        (True, Some p) \<Rightarrow> download_config s @ [Num (part_offset p), Str (mktemp e (length (tmp_files s)))]
      | _ \<Rightarrow> download_config s)"

text \<open>
  The byte range \<^verbatim>\<open>dump_flush\<close> settles on, or the error it raises before it runs a
  command.
\<close>

definition dump_target :: "kwargs \<Rightarrow> dut \<Rightarrow> error + arg \<times> arg" where
  "dump_target kw s =
     (case kw_partition kw of
        Some name \<Rightarrow>
          (case partition_table s name of
             None \<Rightarrow> Inl (KeyError name)
           | Some p \<Rightarrow> Inr (Num (part_offset p), Num (part_size p)))
      | None \<Rightarrow>
          (case (kw_address kw, kw_size kw) of
             (Some address, Some size') \<Rightarrow> Inr (address, size')
           | _ \<Rightarrow> Inl (IDFToolError ''You must specify 'partition' or ('address' and 'size') to dump flash'')))"

text \<open>A session and surroundings to evaluate the methods on.\<close>

definition example_dut :: dut where
  "example_dut =
     \<lparr>port = ''/dev/ttyUSB0'', esptool = ''esptool.py'', log_folder = ''/log'',
      download_config = [Str ''0x1000'', Str ''bootloader.bin''],
      partition_table = [''nvs'' \<mapsto> \<lparr>part_offset = 0x9000, part_size = 4\<rparr>],
      is_open = True, events = [], tmp_files = [], files = Map.empty\<rparr>"

definition example_env :: "python_version \<Rightarrow> (arg list \<Rightarrow> int \<times> string) \<Rightarrow> env" where
  "example_env py tool =
     \<lparr>python = py, run_tool = tool, mktemp = (\<lambda>n. ''/tmp/tmp0''),
      isabs = (\<lambda>p. take 1 p = ''/''), relpath = (\<lambda>p start. p)\<rparr>"

definition tool_fails :: "arg list \<Rightarrow> int \<times> string" where
  "tool_fails cmd = (2, ''A fatal error occurred'')"

definition tool_ok :: "arg list \<Rightarrow> int \<times> string" where
  "tool_ok cmd = (0, [])"

definition tool_slow_only :: "arg list \<Rightarrow> int \<times> string" where
  "tool_slow_only cmd = (if Str ''115200'' \<in> set cmd then (0, []) else (2, ''A fatal error occurred''))"

section \<open>Properties of port selection\<close>

lemma search_Lit: "search (Lit w) s \<longleftrightarrow> sublist w s"
  by (induction s) (auto simp: sublist_Cons_right)

lemma search_Alt: "search (Alt a b) s \<longleftrightarrow> search a s \<or> search b s"
  by (induction s) auto

lemma search_INVALID_PORT_PATTERN:
  "search INVALID_PORT_PATTERN x \<longleftrightarrow> sublist ''AMA'' x \<or> sublist ''Bluetooth'' x"
  by (simp add: INVALID_PORT_PATTERN_def search_Alt search_Lit)

text \<open>
  C5. When no hint is supplied (\<^verbatim>\<open>ESPPORT\<close> is unset or empty), the result is the
  enumeration with exactly the names that contain \<^verbatim>\<open>AMA\<close> or \<^verbatim>\<open>Bluetooth\<close> taken
  out, the others in their order: no valid port is dropped and no invalid one survives.
\<close>

theorem no_hint_filters:
  "espport = None \<or> espport = Some [] \<Longrightarrow>
   list_available_ports platform ports espport =
     filter (\<lambda>x. \<not> sublist ''AMA'' x \<and> \<not> sublist ''Bluetooth'' x) ports"
  by (auto simp: list_available_ports_def search_INVALID_PORT_PATTERN)

theorem no_hint_filters_witness:
  "list_available_ports ''linux'' [''/dev/ttyUSB0'', ''/dev/ttyAMA0'', ''/dev/ttyUSB1''] None =
     [''/dev/ttyUSB0'', ''/dev/ttyUSB1'']"
  using no_hint_filters [of None "''linux''" "[''/dev/ttyUSB0'', ''/dev/ttyAMA0'', ''/dev/ttyUSB1'']"]
  by (simp add: sublist_code)

text \<open>
  C4. A hint (a value of \<^verbatim>\<open>ESPPORT\<close> that is not empty) that is one of the enumerated
  ports comes first in the result; the other ports follow in their order, the hint taken
  out of the place where it first stood.
\<close>

theorem hint_first:
  "port_hint \<noteq> [] \<Longrightarrow> port_hint \<in> set ports \<Longrightarrow>
   list_available_ports platform ports (Some port_hint) = port_hint # remove1 port_hint ports"
  by (simp add: list_available_ports_def)

theorem hint_first_witness:
  "''/dev/ttyUSB1'' \<noteq> [] \<and> ''/dev/ttyUSB1'' \<in> set [''/dev/ttyUSB0'', ''/dev/ttyUSB1'', ''/dev/ttyUSB2''] \<and>
   list_available_ports ''linux'' [''/dev/ttyUSB0'', ''/dev/ttyUSB1'', ''/dev/ttyUSB2''] (Some ''/dev/ttyUSB1'') =
     [''/dev/ttyUSB1'', ''/dev/ttyUSB0'', ''/dev/ttyUSB2'']"
  using hint_first [of "''/dev/ttyUSB1''" "[''/dev/ttyUSB0'', ''/dev/ttyUSB1'', ''/dev/ttyUSB2'']" "''linux''"]
  by simp

text \<open>
  C6. On macOS (\<^verbatim>\<open>sys.platform\<close> is \<^verbatim>\<open>darwin\<close>), a hint that is not an enumerated port
  and contains \<^verbatim>\<open>tty.\<close> is translated by replacing \<^verbatim>\<open>tty.\<close> with \<^verbatim>\<open>cu.\<close>; when the
  translation is an enumerated port, it comes first and the other ports follow in their
  order.
\<close>

theorem mac_translation:
  "port_hint \<notin> set ports \<Longrightarrow> str_in ''tty.'' port_hint \<Longrightarrow>
   str_replace ''tty.'' ''cu.'' port_hint \<in> set ports \<Longrightarrow>
   list_available_ports ''darwin'' ports (Some port_hint) =
     str_replace ''tty.'' ''cu.'' port_hint # remove1 (str_replace ''tty.'' ''cu.'' port_hint) ports"
  by (auto simp: list_available_ports_def Let_def)

theorem mac_translation_witness:
  "''/dev/tty.SLAB_USBtoUART'' \<notin> set [''/dev/cu.usbmodem1'', ''/dev/cu.SLAB_USBtoUART''] \<and>
   str_in ''tty.'' ''/dev/tty.SLAB_USBtoUART'' \<and>
   str_replace ''tty.'' ''cu.'' ''/dev/tty.SLAB_USBtoUART'' \<in> set [''/dev/cu.usbmodem1'', ''/dev/cu.SLAB_USBtoUART''] \<and>
   list_available_ports ''darwin'' [''/dev/cu.usbmodem1'', ''/dev/cu.SLAB_USBtoUART''] (Some ''/dev/tty.SLAB_USBtoUART'') =
     [''/dev/cu.SLAB_USBtoUART'', ''/dev/cu.usbmodem1'']"
  using mac_translation [of "''/dev/tty.SLAB_USBtoUART''" "[''/dev/cu.usbmodem1'', ''/dev/cu.SLAB_USBtoUART'']"]
  by simp

text \<open>
  C7. With a hint that matches an enumerated port, as it is or after the macOS
  translation, the result is a permutation of the enumeration: every port occurs in it
  as often as in the input.
\<close>

theorem matching_hint_permutation:
  "port_hint \<noteq> [] \<Longrightarrow>
   port_hint \<in> set ports \<or>
     (platform = ''darwin'' \<and> str_in ''tty.'' port_hint \<and>
      str_replace ''tty.'' ''cu.'' port_hint \<in> set ports) \<Longrightarrow>
   mset (list_available_ports platform ports (Some port_hint)) = mset ports"
  by (auto simp: list_available_ports_def Let_def)

theorem matching_hint_permutation_witness:
  "''/dev/ttyUSB1'' \<noteq> [] \<and>
   ''/dev/ttyUSB1'' \<in> set [''/dev/ttyAMA0'', ''/dev/ttyUSB1'', ''/dev/ttyAMA0'', ''/dev/ttyUSB1''] \<and>
   mset (list_available_ports ''linux'' [''/dev/ttyAMA0'', ''/dev/ttyUSB1'', ''/dev/ttyAMA0'', ''/dev/ttyUSB1'']
           (Some ''/dev/ttyUSB1'')) =
     mset [''/dev/ttyAMA0'', ''/dev/ttyUSB1'', ''/dev/ttyAMA0'', ''/dev/ttyUSB1'']"
  using matching_hint_permutation
    [of "''/dev/ttyUSB1''" "[''/dev/ttyAMA0'', ''/dev/ttyUSB1'', ''/dev/ttyAMA0'', ''/dev/ttyUSB1'']" "''linux''"]
  by simp

text \<open>
  C9. A hint that is not empty and matches no enumerated port, neither as it is nor after
  the macOS translation, gives the enumeration back unchanged; the invalid-port pattern
  is not applied.
\<close>

theorem unmatched_hint_unmodified:
  "port_hint \<noteq> [] \<Longrightarrow> port_hint \<notin> set ports \<Longrightarrow>
   \<not> (platform = ''darwin'' \<and> str_in ''tty.'' port_hint \<and>
      str_replace ''tty.'' ''cu.'' port_hint \<in> set ports) \<Longrightarrow>
   list_available_ports platform ports (Some port_hint) = ports"
  by (auto simp: list_available_ports_def Let_def)

theorem unmatched_hint_unmodified_witness:
  "''/dev/tty.usb9'' \<noteq> [] \<and> ''/dev/tty.usb9'' \<notin> set [''/dev/tty.Bluetooth-Incoming-Port'', ''/dev/cu.usb0''] \<and>
   \<not> (''darwin'' = ''darwin'' \<and> str_in ''tty.'' ''/dev/tty.usb9'' \<and>
      str_replace ''tty.'' ''cu.'' ''/dev/tty.usb9'' \<in> set [''/dev/tty.Bluetooth-Incoming-Port'', ''/dev/cu.usb0'']) \<and>
   list_available_ports ''darwin'' [''/dev/tty.Bluetooth-Incoming-Port'', ''/dev/cu.usb0''] (Some ''/dev/tty.usb9'') =
     [''/dev/tty.Bluetooth-Incoming-Port'', ''/dev/cu.usb0''] \<and>
   search INVALID_PORT_PATTERN ''/dev/tty.Bluetooth-Incoming-Port''"
  using unmatched_hint_unmodified
    [of "''/dev/tty.usb9''" "[''/dev/tty.Bluetooth-Incoming-Port'', ''/dev/cu.usb0'']" "''darwin''"]
  by (simp add: INVALID_PORT_PATTERN_def)

section \<open>Properties of the tool methods\<close>


lemma check_output_text:
  "list_all is_text cmd \<Longrightarrow>
   check_output e cmd s =
     (if fst (run_tool e cmd) = 0 then Inr (snd (run_tool e cmd)) else Inl (failure e cmd),
      s\<lparr>events := events s @ [Tool cmd]\<rparr>)"
  by (simp add: check_output_def failure_def Let_def split: prod.splits)

lemma check_output_not_text:
  "\<not> list_all is_text cmd \<Longrightarrow> check_output e cmd s = (Inl (not_text_error (python e)), s)"
  by (simp add: check_output_def)

lemma flash_cmd_text [simp]: "list_all is_text (flash_cmd s b dc) = list_all is_text dc"
  by (simp add: flash_cmd_def is_text_def)

lemma flash_cmd_events [simp]: "flash_cmd (s\<lparr>events := ev\<rparr>) b dc = flash_cmd s b dc"
  by (simp add: flash_cmd_def)

lemma not_text_error_cases:
  "not_text_error py \<noteq> CalledProcessError rc cmd out"
  by (simp add: not_text_error_def split: python_version.splits)

lemma flash_retry_not_text:
  "\<not> list_all is_text dc \<Longrightarrow>
   flash_retry e dc (b # rest) err s = (Inl (not_text_error (python e)), s)"
  by (simp add: check_output_not_text not_text_error_def split: python_version.splits)

lemma flash_retry_frame:
  "list_all is_text dc \<Longrightarrow>
   snd (flash_retry e dc rates err s) =
     s\<lparr>events := events s @ map (\<lambda>b. Tool (flash_cmd s b dc)) (attempted e s dc rates)\<rparr>"
proof (induction rates arbitrary: err s)
  case Nil
  show ?case by (simp add: attempted_def split: option.splits)
next
  case (Cons b rates)
  let ?s' = "s\<lparr>events := events s @ [Tool (flash_cmd s b dc)]\<rparr>"
  have co: "check_output e (flash_cmd s b dc) s =
      (if fst (run_tool e (flash_cmd s b dc)) = 0 then Inr (snd (run_tool e (flash_cmd s b dc)))
       else Inl (failure e (flash_cmd s b dc)), ?s')"
    using Cons.prems by (simp add: check_output_text)
  show ?case
  proof (cases "fst (run_tool e (flash_cmd s b dc)) = 0")
    case True
    then show ?thesis using co by (simp add: attempted_def)
  next
    case False
    have att: "attempted e s dc (b # rates) = b # attempted e s dc rates"
      using False by (simp add: attempted_def)
    have att': "attempted e ?s' dc rates = attempted e s dc rates"
      by (simp add: attempted_def)
    show ?thesis using False co Cons.IH [OF Cons.prems, of _ ?s'] att att'
      by (simp add: failure_def)
  qed
qed

lemma flash_retry_result:
  "list_all is_text dc \<Longrightarrow>
   isl (fst (flash_retry e dc rates err s)) =
     list_all (\<lambda>b. fst (run_tool e (flash_cmd s b dc)) \<noteq> 0) rates"
proof (induction rates arbitrary: err s)
  case Nil
  show ?case by (simp split: option.splits)
next
  case (Cons b rates)
  let ?s' = "s\<lparr>events := events s @ [Tool (flash_cmd s b dc)]\<rparr>"
  have co: "check_output e (flash_cmd s b dc) s =
      (if fst (run_tool e (flash_cmd s b dc)) = 0 then Inr (snd (run_tool e (flash_cmd s b dc)))
       else Inl (failure e (flash_cmd s b dc)), ?s')"
    using Cons.prems by (simp add: check_output_text)
  show ?case using co Cons.IH [OF Cons.prems, of _ ?s'] by (simp add: failure_def)
qed

lemma flash_retry_py2:
  "list_all is_text dc \<Longrightarrow> python e = Py2 \<Longrightarrow>
   list_all (\<lambda>b. fst (run_tool e (flash_cmd s b dc)) \<noteq> 0) rates \<Longrightarrow>
   fst (flash_retry e dc rates (Some x) s) =
     Inl (if rates = [] then x else failure e (flash_cmd s (last rates) dc))"
proof (induction rates arbitrary: x s)
  case Nil
  show ?case by simp
next
  case (Cons b rates)
  let ?s' = "s\<lparr>events := events s @ [Tool (flash_cmd s b dc)]\<rparr>"
  have co: "check_output e (flash_cmd s b dc) s = (Inl (failure e (flash_cmd s b dc)), ?s')"
    using Cons.prems by (simp add: check_output_text)
  have "list_all (\<lambda>b. fst (run_tool e (flash_cmd ?s' b dc)) \<noteq> 0) rates"
    using Cons.prems by simp
  from Cons.IH [OF Cons.prems(1) Cons.prems(2) this] show ?case
    using co Cons.prems(2) by (simp add: failure_def)
qed

lemma flash_retry_py3:
  "list_all is_text dc \<Longrightarrow> python e = Py3 \<Longrightarrow>
   list_all (\<lambda>b. fst (run_tool e (flash_cmd s b dc)) \<noteq> 0) rates \<Longrightarrow>
   fst (flash_retry e dc rates err s) =
     Inl (if rates = [] then (case err of Some x \<Rightarrow> x | None \<Rightarrow> UnboundLocalError ''error'')
          else UnboundLocalError ''error'')"
proof (induction rates arbitrary: err s)
  case Nil
  show ?case by (simp split: option.splits)
next
  case (Cons b rates)
  let ?s' = "s\<lparr>events := events s @ [Tool (flash_cmd s b dc)]\<rparr>"
  have co: "check_output e (flash_cmd s b dc) s = (Inl (failure e (flash_cmd s b dc)), ?s')"
    using Cons.prems by (simp add: check_output_text)
  have "list_all (\<lambda>b. fst (run_tool e (flash_cmd ?s' b dc)) \<noteq> 0) rates"
    using Cons.prems by simp
  from Cons.IH [OF Cons.prems(1) Cons.prems(2) this, of None] show ?case
    using co Cons.prems(2) by (simp add: failure_def)
qed

lemma close_simps [simp]:
  "is_open (close s) = False" "events (close s) = events s @ [ClosePort]"
  "tmp_files (close s) = tmp_files s" "files (close s) = files s"
  "partition_table (close s) = partition_table s" "download_config (close s) = download_config s"
  "esptool (close s) = esptool s" "port (close s) = port s" "log_folder (close s) = log_folder s"
  by (simp_all add: close_def)

lemma open_port_simps [simp]:
  "is_open (open_port s) = True" "events (open_port s) = events s @ [OpenPort]"
  "tmp_files (open_port s) = tmp_files s" "files (open_port s) = files s"
  by (simp_all add: open_port_def)

lemma flash_cmd_close [simp]: "flash_cmd (close s) b dc = flash_cmd s b dc"
  by (simp add: flash_cmd_def)

lemma attempted_close [simp]: "attempted e (close s) dc rates = attempted e s dc rates"
  by (simp add: attempted_def)

lemma flash_config_close [simp]: "flash_config e erase_nvs (close s) = flash_config e erase_nvs s"
  by (simp add: flash_config_def split: bool.splits option.splits)


lemma start_app_body_plain:
  "start_app_body e False s =
     flash_retry e (download_config s) retry_baud_rates (Some (IDFToolError [])) s"
  by (simp add: start_app_body_def)

lemma start_app_body_erase:
  assumes nvs: "partition_table s ''nvs'' = Some p"
  shows "start_app_body e True s =
    (Inl (not_text_error (python e)),
     s\<lparr>tmp_files := tmp_files s @
         [\<lparr>tmp_name = mktemp e (length (tmp_files s)),
           tmp_content = replicate (nat (part_size p)) 0xFF, tmp_closed = True\<rparr>]\<rparr>)"
proof -
  let ?f = "\<lparr>tmp_name = mktemp e (length (tmp_files s)),
             tmp_content = replicate (nat (part_size p)) 0xFF, tmp_closed = False\<rparr>"
  let ?s2 = "s\<lparr>tmp_files := tmp_files s @ [?f]\<rparr>"
  let ?dc = "download_config s @ [Num (part_offset p), Str (mktemp e (length (tmp_files s)))]"
  have nt: "\<not> list_all is_text ?dc"
    by (simp add: is_text_def)
  have fr: "flash_retry e ?dc retry_baud_rates (Some (IDFToolError [])) ?s2 =
      (Inl (not_text_error (python e)), ?s2)"
    unfolding retry_baud_rates_def by (rule flash_retry_not_text [OF nt])
  have body: "start_app_body e True s =
     (case flash_retry e ?dc retry_baud_rates (Some (IDFToolError [])) ?s2 of
        (r, s3) \<Rightarrow> (r, tmp_close (length (tmp_files s)) s3))"
    unfolding start_app_body_def Let_def
    by (simp add: nvs NamedTemporaryFile_def tmp_write_def)
  show ?thesis
    unfolding body fr
    by (simp add: tmp_close_def)
qed

lemma start_app_body_loop:
  assumes "\<not> (erase_nvs \<and> partition_table s ''nvs'' = None)"
  shows "fst (start_app_body e erase_nvs s) =
           fst (flash_retry e (flash_config e erase_nvs s) retry_baud_rates (Some (IDFToolError [])) s)"
    and "events (snd (start_app_body e erase_nvs s)) =
           events (snd (flash_retry e (flash_config e erase_nvs s) retry_baud_rates
             (Some (IDFToolError [])) s))"
    and "is_open (snd (start_app_body e erase_nvs s)) =
           is_open (snd (flash_retry e (flash_config e erase_nvs s) retry_baud_rates
             (Some (IDFToolError [])) s))"
proof -
  have "fst (start_app_body e erase_nvs s) =
           fst (flash_retry e (flash_config e erase_nvs s) retry_baud_rates (Some (IDFToolError [])) s) \<and>
        events (snd (start_app_body e erase_nvs s)) =
           events (snd (flash_retry e (flash_config e erase_nvs s) retry_baud_rates
             (Some (IDFToolError [])) s)) \<and>
        is_open (snd (start_app_body e erase_nvs s)) =
           is_open (snd (flash_retry e (flash_config e erase_nvs s) retry_baud_rates
             (Some (IDFToolError [])) s))"
  proof (cases erase_nvs)
    case False
    then show ?thesis by (simp add: start_app_body_plain flash_config_def)
  next
    case True
    with assms obtain p where p: "partition_table s ''nvs'' = Some p" by auto
    let ?dc = "download_config s @ [Num (part_offset p), Str (mktemp e (length (tmp_files s)))]"
    have en: "erase_nvs = True" using True by simp
    have dc: "flash_config e True s = ?dc"
      using p by (simp add: flash_config_def)
    have nt: "\<not> list_all is_text ?dc"
      by (simp add: is_text_def)
    have fr: "flash_retry e ?dc retry_baud_rates (Some (IDFToolError [])) s =
        (Inl (not_text_error (python e)), s)"
      unfolding retry_baud_rates_def by (rule flash_retry_not_text [OF nt])
    show ?thesis
      unfolding en by (simp add: dc fr start_app_body_erase [OF p])
  qed
  then show "fst (start_app_body e erase_nvs s) =
           fst (flash_retry e (flash_config e erase_nvs s) retry_baud_rates (Some (IDFToolError [])) s)"
    and "events (snd (start_app_body e erase_nvs s)) =
           events (snd (flash_retry e (flash_config e erase_nvs s) retry_baud_rates
             (Some (IDFToolError [])) s))"
    and "is_open (snd (start_app_body e erase_nvs s)) =
           is_open (snd (flash_retry e (flash_config e erase_nvs s) retry_baud_rates
             (Some (IDFToolError [])) s))"
    by simp_all
qed



lemma tool_method_eq:
  "tool_method func s =
     (fst (func (close s)),
      if isl (fst (func (close s))) then snd (func (close s)) else open_port (snd (func (close s))))"
  by (simp add: tool_method_def split: prod.splits sum.splits)

lemma example_simps:
  "esptool example_dut = ''esptool.py''" "port example_dut = ''/dev/ttyUSB0''"
  "download_config example_dut = [Str ''0x1000'', Str ''bootloader.bin'']"
  "partition_table example_dut ''nvs'' = Some \<lparr>part_offset = 0x9000, part_size = 4\<rparr>"
  "partition_table example_dut ''phy'' = None"
  "events example_dut = []" "tmp_files example_dut = []" "is_open example_dut = True"
  "log_folder example_dut = ''/log''"
  by (simp_all add: example_dut_def)

lemma example_env_simps:
  "python (example_env py tool) = py" "run_tool (example_env py tool) = tool"
  "mktemp (example_env py tool) n = ''/tmp/tmp0''"
  "isabs (example_env py tool) p = (take 1 p = ''/'')"
  "relpath (example_env py tool) p start = p"
  by (simp_all add: example_env_def)

text \<open>\<^verbatim>\<open>reset\<close> in full: the command is run with the port closed.\<close>

lemma reset_eq:
  "reset e s =
     (let cmd = [Str ''python'', Str (esptool s), Str ''--port'', Str (port s), Str ''run''] in
      if fst (run_tool e cmd) = 0
      then (Inr (), open_port ((close s)\<lparr>events := events s @ [ClosePort, Tool cmd]\<rparr>))
      else (Inl (failure e cmd), (close s)\<lparr>events := events s @ [ClosePort, Tool cmd]\<rparr>))"
proof -
  let ?cmd = "[Str ''python'', Str (esptool s), Str ''--port'', Str (port s), Str ''run'']"
  have t: "list_all is_text ?cmd" by (simp add: is_text_def)
  have "reset_body e (close s) =
      (if fst (run_tool e ?cmd) = 0 then Inr () else Inl (failure e ?cmd),
       (close s)\<lparr>events := events s @ [ClosePort, Tool ?cmd]\<rparr>)"
    using check_output_text [OF t, of e "close s"] by (simp add: reset_body_def)
  then show ?thesis by (simp add: reset_def tool_method_eq Let_def)
qed

text \<open>
  C1 at a failing input: \<^verbatim>\<open>reset\<close> on a session whose port is open, with a command
  that exits with status 2. \<^verbatim>\<open>check_output\<close> raises \<^verbatim>\<open>CalledProcessError\<close>, which
  leaves \<^verbatim>\<open>handler\<close> before \<^verbatim>\<open>self.open()\<close>: the caller gets the error and the port
  is closed, where the claim has it reopened.
\<close>

theorem tool_method_raise_leaves_closed:
  "is_open example_dut \<and>
   fst (reset (example_env Py3 tool_fails) example_dut) =
     Inl (CalledProcessError 2 [Str ''python'', Str ''esptool.py'', Str ''--port'', Str ''/dev/ttyUSB0'', Str ''run'']
           ''A fatal error occurred'') \<and>
   events (snd (reset (example_env Py3 tool_fails) example_dut)) =
     [ClosePort, Tool [Str ''python'', Str ''esptool.py'', Str ''--port'', Str ''/dev/ttyUSB0'', Str ''run'']] \<and>
   \<not> is_open (snd (reset (example_env Py3 tool_fails) example_dut))"
  by (simp add: reset_eq failure_def Let_def example_simps example_env_simps tool_fails_def)

text \<open>When the command succeeds, the port is reopened after it.\<close>

lemma reset_returns_reopens:
  "fst (reset (example_env Py3 tool_ok) example_dut) = Inr () \<and>
   events (snd (reset (example_env Py3 tool_ok) example_dut)) =
     [ClosePort, Tool [Str ''python'', Str ''esptool.py'', Str ''--port'', Str ''/dev/ttyUSB0'', Str ''run''],
      OpenPort] \<and>
   is_open (snd (reset (example_env Py3 tool_ok) example_dut))"
  by (simp add: reset_eq failure_def Let_def example_simps example_env_simps tool_ok_def)

lemma attempted_two:
  "attempted e s dc [a, b] = (if fst (run_tool e (flash_cmd s a dc)) = 0 then [a] else [a, b])"
  by (simp add: attempted_def)

text \<open>
  C3. When \<^verbatim>\<open>start_app\<close> reaches its loop with a command line of strings, it runs the
  flash command at 921600 first; if that succeeds, nothing else is run and the method
  returns; otherwise it runs the command at 115200, and returns normally exactly when one
  of the two succeeded. A command line with a number in it, as the integer offset that
  \<^verbatim>\<open>erase_nvs\<close> appends, raises \<^verbatim>\<open>TypeError\<close> at the first attempt, before any
  command is run.
\<close>

theorem start_app_short_circuit:
  assumes "\<not> (erase_nvs \<and> partition_table s ''nvs'' = None)"
  shows "events (snd (start_app e erase_nvs s)) =
           events s @ ClosePort #
             (if \<not> list_all is_text (flash_config e erase_nvs s) then []
              else if fst (run_tool e (flash_cmd s ''921600'' (flash_config e erase_nvs s))) = 0 then
                [Tool (flash_cmd s ''921600'' (flash_config e erase_nvs s)), OpenPort]
              else if fst (run_tool e (flash_cmd s ''115200'' (flash_config e erase_nvs s))) = 0 then
                [Tool (flash_cmd s ''921600'' (flash_config e erase_nvs s)),
                 Tool (flash_cmd s ''115200'' (flash_config e erase_nvs s)), OpenPort]
              else
                [Tool (flash_cmd s ''921600'' (flash_config e erase_nvs s)),
                 Tool (flash_cmd s ''115200'' (flash_config e erase_nvs s))]) \<and>
         (fst (start_app e erase_nvs s) = Inr ()) =
           (list_all is_text (flash_config e erase_nvs s) \<and>
            (fst (run_tool e (flash_cmd s ''921600'' (flash_config e erase_nvs s))) = 0 \<or>
             fst (run_tool e (flash_cmd s ''115200'' (flash_config e erase_nvs s))) = 0))"
proof -
  let ?dc = "flash_config e erase_nvs s"
  let ?r = "flash_retry e ?dc retry_baud_rates (Some (IDFToolError [])) (close s)"
  have pre: "\<not> (erase_nvs \<and> partition_table (close s) ''nvs'' = None)"
    using assms by simp
  have fst_body: "fst (start_app_body e erase_nvs (close s)) = fst ?r"
    using start_app_body_loop(1) [OF pre, of e] by simp
  have ev_body: "events (snd (start_app_body e erase_nvs (close s))) = events (snd ?r)"
    using start_app_body_loop(2) [OF pre, of e] by simp
  have res: "(fst ?r = Inr ()) = (\<not> isl (fst ?r))"
    by (cases "fst ?r") auto
  show ?thesis
  proof (cases "list_all is_text ?dc")
    case False
    have "?r = (Inl (not_text_error (python e)), close s)"
      unfolding retry_baud_rates_def by (rule flash_retry_not_text [OF False])
    then show ?thesis
      using False by (simp add: start_app_def tool_method_eq fst_body ev_body)
  next
    case True
    have ev: "events (snd ?r) =
        events s @ ClosePort # map (\<lambda>b. Tool (flash_cmd s b ?dc))
          (if fst (run_tool e (flash_cmd s ''921600'' ?dc)) = 0 then [''921600'']
           else [''921600'', ''115200''])"
      by (simp only: flash_retry_frame [OF True]) (simp add: retry_baud_rates_def attempted_two)
    have isl: "isl (fst ?r) =
        (fst (run_tool e (flash_cmd s ''921600'' ?dc)) \<noteq> 0 \<and>
         fst (run_tool e (flash_cmd s ''115200'' ?dc)) \<noteq> 0)"
      by (simp only: flash_retry_result [OF True]) (simp add: retry_baud_rates_def)
    show ?thesis
      unfolding start_app_def tool_method_eq
      using True by (simp add: fst_body ev_body ev isl res)
  qed
qed

theorem start_app_short_circuit_witness:
  "\<not> (False \<and> partition_table example_dut ''nvs'' = None) \<and>
   list_all is_text (flash_config (example_env Py3 tool_ok) False example_dut) \<and>
   events (snd (start_app (example_env Py3 tool_ok) False example_dut)) =
     [ClosePort,
      Tool [Str ''python'', Str ''esptool.py'', Str ''--port'', Str ''/dev/ttyUSB0'', Str ''--baud'',
            Str ''921600'', Str ''0x1000'', Str ''bootloader.bin''],
      OpenPort] \<and>
   fst (start_app (example_env Py3 tool_ok) False example_dut) = Inr ()"
  using start_app_short_circuit [of False example_dut "example_env Py3 tool_ok"]
  by (simp add: example_simps example_env_simps flash_cmd_def flash_config_def tool_ok_def is_text_def)

text \<open>
  The fallback: with the command failing at 921600 and succeeding at 115200,
  \<^verbatim>\<open>start_app\<close> runs the two commands in that order and returns normally.
\<close>

lemma start_app_fallback_example:
  "fst (start_app (example_env Py3 tool_slow_only) False example_dut) = Inr () \<and>
   events (snd (start_app (example_env Py3 tool_slow_only) False example_dut)) =
     [ClosePort,
      Tool [Str ''python'', Str ''esptool.py'', Str ''--port'', Str ''/dev/ttyUSB0'', Str ''--baud'',
            Str ''921600'', Str ''0x1000'', Str ''bootloader.bin''],
      Tool [Str ''python'', Str ''esptool.py'', Str ''--port'', Str ''/dev/ttyUSB0'', Str ''--baud'',
            Str ''115200'', Str ''0x1000'', Str ''bootloader.bin''],
      OpenPort]"
  by (simp add: start_app_def tool_method_def start_app_body_def retry_baud_rates_def
        check_output_def flash_cmd_def close_def open_port_def Let_def example_simps example_env_simps
        example_dut_def tool_slow_only_def is_text_def)

text \<open>With \<^verbatim>\<open>erase_nvs\<close> the integer offset is on the command line and no command is run.\<close>

lemma start_app_erase_example:
  "fst (start_app (example_env Py3 tool_ok) True example_dut) =
     Inl (TypeError ''expected str, bytes or os.PathLike object, not int'') \<and>
   events (snd (start_app (example_env Py3 tool_ok) True example_dut)) = [ClosePort]"
  using start_app_body_erase [of "close example_dut" "\<lparr>part_offset = 0x9000, part_size = 4\<rparr>"
      "example_env Py3 tool_ok"]
  by (simp add: start_app_def tool_method_eq example_simps example_env_simps not_text_error_def)

text \<open>
  When both attempts fail, what \<^verbatim>\<open>raise error\<close> raises depends on the interpreter: under
  Python 2 the failure of the last attempt, under Python 3 \<^verbatim>\<open>UnboundLocalError\<close>, the
  name \<^verbatim>\<open>error\<close> having been deleted when the handler ended.
\<close>

lemma start_app_exhaustion:
  assumes reach: "\<not> (erase_nvs \<and> partition_table s ''nvs'' = None)"
    and strs: "list_all is_text (flash_config e erase_nvs s)"
    and f1: "fst (run_tool e (flash_cmd s ''921600'' (flash_config e erase_nvs s))) \<noteq> 0"
    and f2: "fst (run_tool e (flash_cmd s ''115200'' (flash_config e erase_nvs s))) \<noteq> 0"
  shows "fst (start_app e erase_nvs s) =
           (case python e of
              Py2 \<Rightarrow> Inl (failure e (flash_cmd s ''115200'' (flash_config e erase_nvs s)))
            | Py3 \<Rightarrow> Inl (UnboundLocalError ''error''))"
proof -
  let ?dc = "flash_config e erase_nvs s"
  let ?r = "flash_retry e ?dc retry_baud_rates (Some (IDFToolError [])) (close s)"
  have pre: "\<not> (erase_nvs \<and> partition_table (close s) ''nvs'' = None)"
    using reach by simp
  have fst_body: "fst (start_app_body e erase_nvs (close s)) = fst ?r"
    using start_app_body_loop(1) [OF pre, of e] by simp
  have all: "list_all (\<lambda>b. fst (run_tool e (flash_cmd (close s) b ?dc)) \<noteq> 0) retry_baud_rates"
    using f1 f2 by (simp add: retry_baud_rates_def)
  have last: "last retry_baud_rates = ''115200''" "retry_baud_rates \<noteq> []"
    by (simp_all add: retry_baud_rates_def)
  show ?thesis
  proof (cases "python e")
    case Py2
    from flash_retry_py2 [OF strs Py2 all, of "IDFToolError []"]
    have "fst ?r = Inl (failure e (flash_cmd s ''115200'' ?dc))"
      by (simp add: last)
    then show ?thesis using Py2 by (simp add: start_app_def tool_method_eq fst_body)
  next
    case Py3
    from flash_retry_py3 [OF strs Py3 all, of "Some (IDFToolError [])"]
    have "fst ?r = Inl (UnboundLocalError ''error'')"
      by (simp add: last)
    then show ?thesis using Py3 by (simp add: start_app_def tool_method_eq fst_body)
  qed
qed

text \<open>
  C2 at a failing input: under Python 3, with the command failing at both baud rates,
  \<^verbatim>\<open>start_app\<close> runs both commands and raises \<^verbatim>\<open>UnboundLocalError\<close>, not the
  \<^verbatim>\<open>CalledProcessError\<close> of the attempt at 115200.
\<close>

theorem start_app_exhaustion_py3:
  "fst (start_app (example_env Py3 tool_fails) False example_dut) = Inl (UnboundLocalError ''error'') \<and>
   tool_calls (events (snd (start_app (example_env Py3 tool_fails) False example_dut))) =
     [[Str ''python'', Str ''esptool.py'', Str ''--port'', Str ''/dev/ttyUSB0'', Str ''--baud'',
       Str ''921600'', Str ''0x1000'', Str ''bootloader.bin''],
      [Str ''python'', Str ''esptool.py'', Str ''--port'', Str ''/dev/ttyUSB0'', Str ''--baud'',
       Str ''115200'', Str ''0x1000'', Str ''bootloader.bin'']]"
  by (simp add: start_app_def tool_method_def start_app_body_def retry_baud_rates_def
        check_output_def flash_cmd_def close_def Let_def example_simps example_env_simps
        example_dut_def tool_fails_def is_text_def)

text \<open>The same call under Python 2 raises the failure of the attempt at 115200.\<close>

lemma start_app_exhaustion_py2_example:
  "fst (start_app (example_env Py2 tool_fails) False example_dut) =
     Inl (CalledProcessError 2
           [Str ''python'', Str ''esptool.py'', Str ''--port'', Str ''/dev/ttyUSB0'', Str ''--baud'',
            Str ''115200'', Str ''0x1000'', Str ''bootloader.bin'']
           ''A fatal error occurred'')"
  by (simp add: start_app_def tool_method_def start_app_body_def retry_baud_rates_def
        check_output_def flash_cmd_def close_def Let_def example_simps example_env_simps
        example_dut_def tool_fails_def is_text_def)





lemma read_flash_cmd_close [simp]:
  "read_flash_cmd (close s) address size' out = read_flash_cmd s address size' out"
  by (simp add: read_flash_cmd_def)

lemma dump_target_close [simp]: "dump_target kw (close s) = dump_target kw s"
  by (simp add: dump_target_def split: option.splits)








end
